theory Spec2Isabelle
  imports Main
begin

section \<open>Python strings\<close>

text \<open>
  A Python \<open>str\<close> is modelled as the list of its code points, one \<open>char\<close> each; the
  model covers code points below 256. A notebook loaded by \<open>json.load\<close> is a tree of
  fresh objects (no two cells share a dict or a list), so the in-place updates of the
  program are modelled by value: every function returns what the program leaves in the
  object it mutated.
\<close>

text \<open>\<open>s.startswith(p)\<close>.\<close>

definition startswith :: "string \<Rightarrow> string \<Rightarrow> bool" where
  "startswith s p = (take (length p) s = p)"

text \<open>\<open>str.isspace\<close> on one code point below 256, the characters \<open>rstrip()\<close> removes.\<close>

definition isspace :: "char \<Rightarrow> bool" where
  "isspace c = (let n = (of_char c :: nat) in
     (9 \<le> n \<and> n \<le> 13) \<or> (28 \<le> n \<and> n \<le> 32) \<or> n = 133 \<or> n = 160)"

text \<open>\<open>s.rstrip()\<close>: the trailing run of whitespace is dropped.\<close>

definition rstrip :: "string \<Rightarrow> string" where
  "rstrip s = rev (dropWhile isspace (rev s))"

text \<open>\<open>s.replace(' ', '_')\<close>: every space becomes one underscore.\<close>

definition replace_space :: "string \<Rightarrow> string" where
  "replace_space s = map (\<lambda>c. if c = CHR '' '' then CHR ''_'' else c) s"

text \<open>\<open>str(n)\<close> for a length \<open>n\<close>: the decimal numeral.\<close>

definition digit_char :: "nat \<Rightarrow> char" where
  "digit_char d = ''0123456789'' ! d"

fun str_nat :: "nat \<Rightarrow> string" where
  "str_nat n = (if n < 10 then [digit_char n]
     else str_nat (n div 10) @ [digit_char (n mod 10)])"

declare str_nat.simps [simp del]

text \<open>\<open>c * n\<close> for a one-character string \<open>c\<close>: empty when \<open>n\<close> is not positive.\<close>

definition str_times :: "char \<Rightarrow> int \<Rightarrow> string" where
  "str_times c n = replicate (nat n) c"

section \<open>Data model\<close>

text \<open>Values of a notebook that the program only carries along.\<close>

datatype json = JNull | JBool bool | JInt int | JStr string
  | JArr "json list" | JObj "(string \<times> json) list"

text \<open>
  A cell is a dict with the keys \<open>cell_type\<close> and \<open>source\<close> (a list of lines), which
  the program reads, and any other keys (\<open>id\<close>, \<open>metadata\<close>, \<open>outputs\<close>, ...), kept in
  \<open>cell_other\<close>. A document is a dict with the key \<open>cells\<close> and its other keys.
  The record type excludes cells that lack \<open>cell_type\<close> or \<open>source\<close>, on which the
  program raises \<open>KeyError\<close>.
\<close>

record cell =
  cell_type :: string
  cell_source :: "string list"
  cell_other :: "(string \<times> json) list"

record document =
  doc_cells :: "cell list"
  doc_other :: "(string \<times> json) list"

text \<open>One entry of the heading table: the dict \<open>{'title', 'level', 'anchor'}\<close>.\<close>

record heading =
  h_title :: string
  h_level :: int
  h_anchor :: string

text \<open>
  The heading table \<open>titles\<close> / \<open>info_to_add\<close> is a dict from int keys to entries,
  modelled in insertion order. \<open>len\<close> is \<open>length\<close>.
\<close>

type_synonym titles = "(nat \<times> heading) list"

text \<open>\<open>d[k] = v\<close>: an existing key keeps its place, a new key goes last.\<close>

fun dict_set :: "titles \<Rightarrow> nat \<Rightarrow> heading \<Rightarrow> titles" where
  "dict_set [] k v = [(k, v)]"
| "dict_set ((k', v') # d) k v = (if k' = k then (k, v) # d else (k', v') # dict_set d k v)"

datatype error = KeyError | IndexError | ZeroDivisionError

text \<open>\<open>d[k]\<close>: raises \<open>KeyError\<close> on a missing key.\<close>

definition dict_get :: "titles \<Rightarrow> nat \<Rightarrow> error + heading" where
  "dict_get d k = (case map_of d k of None \<Rightarrow> Inl KeyError | Some v \<Rightarrow> Inr v)"

section \<open>The annotator\<close>

text \<open>
  \<open>maquillate(title, level, colors)\<close>. The index \<open>level % len(colors)\<close> raises
  \<open>ZeroDivisionError\<close> on an empty list, and lies in \<open>0..len(colors)-1\<close> otherwise.
  A colour is modelled as the string the f-string prints for it.
\<close>

definition maquillate :: "string \<Rightarrow> int \<Rightarrow> string list \<Rightarrow> error + string" where
  \<open>maquillate title level colors =
     (if length colors = 0 then Inl ZeroDivisionError
      else let color = colors ! nat (level mod int (length colors))
           in Inr (''<span style="color: '' @ color @ ''">'' @ title @ ''</span>''))\<close>

text \<open>
  \<open>create_source_anchor(source, values, colors)\<close>. \<open>colors\<close> is \<open>None\<close> or a list;
  \<open>if colors:\<close> holds for a non-empty list only. The assignment \<open>new_source[1] = ...\<close>
  raises \<open>IndexError\<close> when \<open>source\<close> is empty.
\<close>

definition create_source_anchor ::
  "string list \<Rightarrow> heading \<Rightarrow> string list option \<Rightarrow> error + string list" where
  \<open>create_source_anchor source values colors =
     (let anchor = h_anchor values;
          title = h_title values;
          level = h_level values;
          term_i = ''<a class="anchor" id="'';
          term_f = ''"></a>\<newline>'';
          full_term = term_i @ anchor @ term_f
      in case (case colors of
                 None \<Rightarrow> Inr title
               | Some cs \<Rightarrow> if cs = [] then Inr title else maquillate title level cs) of
           Inl e \<Rightarrow> Inl e
         | Inr title \<Rightarrow>
             (let new_source = full_term # source
              in if length new_source < 2 then Inl IndexError
                 else Inr (new_source[1 := ''#'' @ str_times CHR ''#'' level @ '' '' @ title])))\<close>

text \<open>
  \<open>extract_info(source, titles)\<close>: every line that starts with \<open>#\<close> adds one entry
  under the key \<open>len(titles)\<close>. \<open>re.findall('#', word)\<close> finds every \<open>#\<close> of the line,
  and \<open>word[level + 2:]\<close> drops \<open>level + 2\<close> characters.
\<close>

fun extract_info :: "string list \<Rightarrow> titles \<Rightarrow> titles" where
  "extract_info [] titles = titles"
| "extract_info (word # rest) titles =
     (if startswith word ''#'' then
        (let level = int (length (filter (\<lambda>c. c = CHR ''#'') word)) - 1;
             title = drop (nat (level + 2)) word;
             anchor = replace_space (rstrip title) @ ''_'' @ str_nat (length titles)
         in extract_info rest
              (dict_set titles (length titles)
                 \<lparr>h_title = title, h_level = level, h_anchor = anchor\<rparr>))
      else extract_info rest titles)"

text \<open>
  \<open>generate_new_cells(cells, colors)\<close>: the loop over the cells, with the state
  \<open>(info_to_add, new_cells)\<close>. A cell that is rewritten keeps every key but \<open>source\<close>.
\<close>

fun cells_loop ::
  "string list option \<Rightarrow> cell list \<Rightarrow> titles \<times> cell list \<Rightarrow> error + titles \<times> cell list" where
  "cells_loop colors [] (info_to_add, new_cells) = Inr (info_to_add, new_cells)"
| "cells_loop colors (cell # rest) (info_to_add, new_cells) =
     (if cell_type cell \<noteq> ''markdown'' then
        cells_loop colors rest (info_to_add, new_cells @ [cell])
      else
        (let source = cell_source cell in
         if source = [] then cells_loop colors rest (info_to_add, new_cells @ [cell])
         else if \<not> startswith (hd source) ''#'' then
           cells_loop colors rest (info_to_add, new_cells @ [cell])
         else
           (let info_to_add = extract_info source info_to_add;
                number = int (length info_to_add) - 1
            in if number < 0 then cells_loop colors rest (info_to_add, new_cells @ [cell])
               else
                 (case dict_get info_to_add (nat number) of
                    Inl e \<Rightarrow> Inl e
                  | Inr values \<Rightarrow>
                      (case create_source_anchor source values colors of
                         Inl e \<Rightarrow> Inl e
                       | Inr new_source \<Rightarrow>
                           cells_loop colors rest
                             (info_to_add, new_cells @ [cell\<lparr>cell_source := new_source\<rparr>]))))))"

definition generate_new_cells ::
  "cell list \<Rightarrow> string list option \<Rightarrow> error + titles \<times> cell list" where
  "generate_new_cells cells colors = cells_loop colors cells ([], [])"

section \<open>The contents cell\<close>

text \<open>
  \<open>format_title_index\<close> rewrites the anchor with
  \<^verbatim>\<open>re.sub(f'((?:^|\\W){re.escape(anchor)}(?:$|\\W))', r'(#\1)', anchor)\<close>.
  The pattern is the start of the string or one non-word character, then the anchor
  taken literally, then the end of the string (which \<^verbatim>\<open>$\<close> also finds before a final
  newline) or one non-word character. A word character is an alphanumeric one or the
  underscore.
\<close>

definition is_word :: "char \<Rightarrow> bool" where
  "is_word c = (let n = (of_char c :: nat) in
     (48 \<le> n \<and> n \<le> 57) \<or> (65 \<le> n \<and> n \<le> 90) \<or> n = 95 \<or> (97 \<le> n \<and> n \<le> 122)
     \<or> n = 170 \<or> n = 178 \<or> n = 179 \<or> n = 181 \<or> n = 185 \<or> n = 186
     \<or> (188 \<le> n \<and> n \<le> 190) \<or> (192 \<le> n \<and> n \<le> 214) \<or> (216 \<le> n \<and> n \<le> 246)
     \<or> 248 \<le> n)"

text \<open>
  The ways \<^verbatim>\<open>(?:$|\W)\<close> matches at the head of \<open>s\<close>, in the order the engine tries
  them, each as the number of characters it takes.
\<close>

definition match_tail :: "string \<Rightarrow> nat list" where
  "match_tail s =
     (if s = [] then [0] else if s = ''\<newline>'' then [0] else [])
     @ (case s of [] \<Rightarrow> [] | c # _ \<Rightarrow> if is_word c then [] else [1])"

text \<open>The literal, then \<^verbatim>\<open>(?:$|\W)\<close>.\<close>

definition match_lit :: "string \<Rightarrow> string \<Rightarrow> nat list" where
  "match_lit lit s =
     (if startswith s lit then map (\<lambda>n. length lit + n) (match_tail (drop (length lit) s))
      else [])"

text \<open>
  The whole pattern at the head of \<open>s\<close>: \<^verbatim>\<open>^\<close> is tried first and holds only at
  the start of the subject, then \<^verbatim>\<open>\W\<close>. After an empty match the engine looks again at the
  same place for a match that is not empty (\<open>must_advance\<close>). The result is the length
  of the match.
\<close>

definition match_here :: "string \<Rightarrow> bool \<Rightarrow> bool \<Rightarrow> string \<Rightarrow> nat option" where
  "match_here lit at_start must_advance s =
     (let ms = (if at_start then match_lit lit s else [])
               @ (case s of [] \<Rightarrow> []
                  | c # cs \<Rightarrow> if is_word c then [] else map Suc (match_lit lit cs));
          ms = (if must_advance then filter (\<lambda>n. 0 < n) ms else ms)
      in case ms of [] \<Rightarrow> None | n # _ \<Rightarrow> Some n)"

text \<open>A match lies inside the subject, and a match found under \<open>must_advance\<close> is not empty.\<close>

lemma match_tail_le: "n \<in> set (match_tail s) \<Longrightarrow> n \<le> length s"
  by (auto simp: match_tail_def split: list.splits if_splits)

lemma match_lit_le: "n \<in> set (match_lit lit s) \<Longrightarrow> n \<le> length s"
proof -
  assume a: "n \<in> set (match_lit lit s)"
  then have sw: "startswith s lit" by (auto simp: match_lit_def split: if_splits)
  then have l: "length lit \<le> length s"
    by (metis startswith_def length_take min.cobounded1 min.commute)
  from a sw obtain m where "m \<in> set (match_tail (drop (length lit) s))" "n = length lit + m"
    by (auto simp: match_lit_def)
  with match_tail_le[of m "drop (length lit) s"] l show ?thesis by simp
qed

lemma filter_eq_ConsD: "filter P xs = n # r \<Longrightarrow> n \<in> set xs \<and> P n"
proof -
  assume a: "filter P xs = n # r"
  have "n \<in> set (filter P xs)" unfolding a by simp
  then show ?thesis by simp
qed

lemma match_here_mem:
  assumes "match_here lit b m s = Some n"
  shows "n \<in> set ((if b then match_lit lit s else [])
               @ (case s of [] \<Rightarrow> [] | c # cs \<Rightarrow> if is_word c then [] else map Suc (match_lit lit cs)))
         \<and> (m \<longrightarrow> 0 < n)"
proof -
  define ms where "ms = (if b then match_lit lit s else [])
               @ (case s of [] \<Rightarrow> [] | c # cs \<Rightarrow> if is_word c then [] else map Suc (match_lit lit cs))"
  from assms have "(case (if m then filter (\<lambda>n. 0 < n) ms else ms) of [] \<Rightarrow> None | n # _ \<Rightarrow> Some n) = Some n"
    unfolding match_here_def Let_def ms_def by simp
  then obtain r where r: "(if m then filter (\<lambda>n. 0 < n) ms else ms) = n # r"
    by (cases "if m then filter (\<lambda>n. 0 < n) ms else ms") auto
  have "n \<in> set ms \<and> (m \<longrightarrow> 0 < n)"
  proof (cases m)
    case True
    with r have "filter (\<lambda>n. 0 < n) ms = n # r" by simp
    from filter_eq_ConsD[OF this] True show ?thesis by simp
  next
    case False
    with r have "ms = n # r" by simp
    with False show ?thesis by simp
  qed
  then show ?thesis unfolding ms_def .
qed

lemma match_here_le: "match_here lit b m s = Some n \<Longrightarrow> n \<le> length s"
  using match_here_mem[of lit b m s n] match_lit_le
  by (fastforce split: list.splits if_splits)

lemma match_here_zero: "match_here lit b m s = Some 0 \<Longrightarrow> \<not> m"
  using match_here_mem[of lit b m s 0] by auto

text \<open>
  \<open>re.sub\<close> with the replacement \<^verbatim>\<open>(#\1)\<close>: the matches are found from left to right
  and do not overlap, and what lies between them is copied.
\<close>

function re_sub :: "string \<Rightarrow> bool \<Rightarrow> bool \<Rightarrow> string \<Rightarrow> string" where
  "re_sub lit at_start must_advance s =
     (case match_here lit at_start must_advance s of
        Some n \<Rightarrow>
          ''(#'' @ take n s @ '')''
          @ (if n = 0 then re_sub lit at_start True s else re_sub lit False False (drop n s))
      | None \<Rightarrow> (case s of [] \<Rightarrow> [] | c # cs \<Rightarrow> c # re_sub lit False False cs))"
  by pat_completeness auto
termination
  by (relation "measure (\<lambda>(lit, at_start, must_advance, s).
        2 * length s + (if must_advance then 0 else 1))")
     (auto dest: match_here_le match_here_zero)

declare re_sub.simps [simp del]

text \<open>\<open>format_title_index(title_numb, titles)\<close>: one line of the contents cell.\<close>

definition format_title_index :: "nat \<Rightarrow> titles \<Rightarrow> error + string" where
  "format_title_index title_numb titles =
     (case dict_get titles title_numb of
        Inl e \<Rightarrow> Inl e
      | Inr title \<Rightarrow>
          (let anchor = h_anchor title;
               level = str_times (CHR 0x09) (h_level title);
               title_format = ''['' @ h_title title @ '']'';
               anchor = re_sub anchor True False anchor;
               line = level @ ''+ '' @ title_format @ anchor @ ''\<newline>''
           in Inr line))"

text \<open>
  \<open>generate_contents(info_to_add)\<close>. The identifier \<open>cell_id\<close> is what
  \<open>generate_corpus_id()\<close> draws at random; the model takes it as an argument. The
  loop runs over \<open>sorted(info_to_add)\<close>, the keys in ascending order.
\<close>

fun contents_loop :: "titles \<Rightarrow> nat list \<Rightarrow> cell \<Rightarrow> error + cell" where
  "contents_loop info_to_add [] table_of_contents = Inr table_of_contents"
| "contents_loop info_to_add (title_numb # rest) table_of_contents =
     (case format_title_index title_numb info_to_add of
        Inl e \<Rightarrow> Inl e
      | Inr line \<Rightarrow>
          contents_loop info_to_add rest
            (table_of_contents\<lparr>cell_source := cell_source table_of_contents @ [line]\<rparr>))"

definition generate_contents :: "string \<Rightarrow> titles \<Rightarrow> error + cell" where
  "generate_contents cell_id info_to_add =
     (let table_of_contents =
            \<lparr>cell_type = ''markdown'',
             cell_source = ['' # Table of Contents\<newline>''],
             cell_other = [(''id'', JStr cell_id), (''metadata'', JObj [])]\<rparr>
      in contents_loop info_to_add (sort (map fst info_to_add)) table_of_contents)"

section \<open>The transformation\<close>

text \<open>
  \<open>create_new_document(document, colors)\<close>. \<open>enchular_ipynb\<close> loads the document from
  a file and passes it here with the colours it was given; its optional lookup of a
  seaborn palette is outside the model.
\<close>

definition create_new_document ::
  "string \<Rightarrow> document \<Rightarrow> string list option \<Rightarrow> error + document" where
  "create_new_document cell_id document colors =
     (case generate_new_cells (doc_cells document) colors of
        Inl e \<Rightarrow> Inl e
      | Inr (info_to_add, new_cells) \<Rightarrow>
          (case generate_contents cell_id info_to_add of
             Inl e \<Rightarrow> Inl e
           | Inr table_of_contents \<Rightarrow>
               Inr (document\<lparr>doc_cells := table_of_contents # new_cells\<rparr>)))"

section \<open>The name of the saved file\<close>

text \<open>
  \<open>s.split(sep)\<close> for a non-empty separator: the pieces between the occurrences of
  \<open>sep\<close>, found from left to right without overlap. \<open>piece\<close> is the piece being read.
\<close>

fun str_split :: "string \<Rightarrow> string \<Rightarrow> string \<Rightarrow> string list" where
  "str_split sep piece [] = [piece]"
| "str_split sep piece (c # cs) =
     (if startswith (c # cs) sep then piece # str_split sep [] (drop (length sep - 1) cs)
      else str_split sep (piece @ [c]) cs)"

text \<open>
  The name \<open>save_doc_enchulado(doc_chulo, file)\<close> writes to:
  \<open>file.split('.ipynb')[0] + '_chulo.ipynb'\<close>.
\<close>

definition name_chulo :: "string \<Rightarrow> error + string" where
  "name_chulo file =
     (case str_split ''.ipynb'' [] file of
        [] \<Rightarrow> Inl IndexError
      | stem # _ \<Rightarrow> Inr (stem @ ''_chulo.ipynb''))"

section \<open>Notions the statements use\<close>

text \<open>The keys of a table built from the empty dict are \<open>0, 1, ..., len - 1\<close>, in order.\<close>

definition keys_ok :: "titles \<Rightarrow> bool" where
  "keys_ok d = (map fst d = [0..<length d])"

text \<open>The entry the body of \<open>extract_info\<close> stores for \<open>word\<close> in a table of \<open>n\<close> entries.\<close>

definition new_entry :: "string \<Rightarrow> nat \<Rightarrow> heading" where
  "new_entry word n =
     \<lparr>h_title = drop (nat (int (length (filter (\<lambda>c. c = CHR ''#'') word)) - 1 + 2)) word,
      h_level = int (length (filter (\<lambda>c. c = CHR ''#'') word)) - 1,
      h_anchor = replace_space (rstrip (drop (nat (int (length (filter (\<lambda>c. c = CHR ''#'') word)) - 1 + 2)) word))
                 @ ''_'' @ str_nat n\<rparr>"

text \<open>The lines of a source that \<open>extract_info\<close> records.\<close>

definition heading_lines :: "string list \<Rightarrow> string list" where
  "heading_lines source = filter (\<lambda>word. startswith word ''#'') source"

text \<open>The entries for the lines \<open>ws\<close>, numbered from \<open>n\<close>.\<close>

definition new_entries :: "nat \<Rightarrow> string list \<Rightarrow> titles" where
  "new_entries n ws = map (\<lambda>(k, word). (k, new_entry word k)) (enumerate n ws)"

text \<open>
  The cells the loop rewrites: markdown cells whose source is not empty and whose first
  line starts with \<open>#\<close>. Every other cell takes one of the two \<open>continue\<close> branches.
\<close>

definition qualifies :: "cell \<Rightarrow> bool" where
  "qualifies cell =
     (cell_type cell = ''markdown'' \<and> cell_source cell \<noteq> []
      \<and> startswith (hd (cell_source cell)) ''#'')"

text \<open>The two lines \<open>create_source_anchor\<close> builds: the anchor tag and the heading line.\<close>

definition anchor_tag :: "string \<Rightarrow> string" where
  \<open>anchor_tag a = ''<a class="anchor" id="'' @ a @ ''"></a>\<newline>''\<close>

definition shown_title :: "heading \<Rightarrow> string list option \<Rightarrow> string" where
  \<open>shown_title values colors =
     (case colors of
        None \<Rightarrow> h_title values
      | Some cs \<Rightarrow>
          if cs = [] then h_title values
          else ''<span style="color: '' @ cs ! nat (h_level values mod int (length cs)) @ ''">''
               @ h_title values @ ''</span>'')\<close>

definition heading_line :: "heading \<Rightarrow> string list option \<Rightarrow> string" where
  "heading_line values colors =
     ''#'' @ str_times CHR ''#'' (h_level values) @ '' '' @ shown_title values colors"

text \<open>
  What the loop appends for a cell met when the table has \<open>n\<close> entries, and the
  number of entries the cell adds.
\<close>

definition annotate_cell :: "string list option \<Rightarrow> nat \<Rightarrow> cell \<Rightarrow> cell" where
  "annotate_cell colors n cell =
     (if qualifies cell then
        (let ws = heading_lines (cell_source cell);
             values = new_entry (last ws) (n + length ws - 1)
         in cell\<lparr>cell_source :=
              anchor_tag (h_anchor values) # heading_line values colors # tl (cell_source cell)\<rparr>)
      else cell)"

definition cell_count :: "cell \<Rightarrow> nat" where
  "cell_count cell = (if qualifies cell then length (heading_lines (cell_source cell)) else 0)"

fun annotate_all :: "string list option \<Rightarrow> nat \<Rightarrow> cell list \<Rightarrow> cell list" where
  "annotate_all colors n [] = []"
| "annotate_all colors n (cell # rest) =
     annotate_cell colors n cell # annotate_all colors (n + cell_count cell) rest"

text \<open>The recorded heading lines of a document, in encounter order.\<close>

definition doc_heading_lines :: "cell list \<Rightarrow> string list" where
  "doc_heading_lines cells =
     concat (map (\<lambda>cell. if qualifies cell then heading_lines (cell_source cell) else []) cells)"

text \<open>The line of the contents cell for one entry of the table.\<close>

definition contents_line :: "heading \<Rightarrow> string" where
  "contents_line title =
     str_times (CHR 0x09) (h_level title) @ ''+ ['' @ h_title title @ ''](#'' @ h_anchor title
     @ '')\<newline>''"

text \<open>
  The document of the end-to-end example: a markdown cell \<open># Intro\<close>, a code cell and
  a markdown cell \<open>## Details\<close>, each heading line ending with a newline.
\<close>

definition example_cells :: "cell list" where
  "example_cells =
    [\<lparr>cell_type = ''markdown'', cell_source = [''# Intro\<newline>''], cell_other = []\<rparr>,
     \<lparr>cell_type = ''code'', cell_source = [''print(1)''], cell_other = []\<rparr>,
     \<lparr>cell_type = ''markdown'', cell_source = [''## Details\<newline>''], cell_other = []\<rparr>]"

text \<open>The part of an anchor behind its last underscore.\<close>

definition anchor_ordinal :: "string \<Rightarrow> string" where
  "anchor_ordinal a = rev (takeWhile (\<lambda>c. c \<noteq> CHR ''_'') (rev a))"

text \<open>The slug of a heading line: its title, right-stripped, spaces as underscores.\<close>

definition slug :: "string \<Rightarrow> string" where
  "slug word = replace_space (rstrip (h_title (new_entry word 0)))"

text \<open>The level, title and anchor of a heading line as the specification words them.\<close>

definition spec_level :: "string \<Rightarrow> int" where
  "spec_level word = int (length (takeWhile (\<lambda>c. c = CHR ''#'') word)) - 1"

definition spec_title :: "string \<Rightarrow> string" where
  "spec_title word =
     (case dropWhile (\<lambda>c. c = CHR ''#'') word of
        [] \<Rightarrow> []
      | c # cs \<Rightarrow> if c = CHR '' '' then cs else c # cs)"

fun collapse_ws :: "bool \<Rightarrow> string \<Rightarrow> string" where
  "collapse_ws in_run [] = []"
| "collapse_ws in_run (c # cs) =
     (if isspace c then (if in_run then collapse_ws True cs else CHR ''_'' # collapse_ws True cs)
      else c # collapse_ws False cs)"

definition spec_anchor :: "string \<Rightarrow> nat \<Rightarrow> string" where
  "spec_anchor word k =
     collapse_ws False (dropWhile isspace (rstrip (spec_title word))) @ ''_'' @ str_nat k"

text \<open>The document the first run makes of the example document.\<close>

definition example_annotated :: document where
  \<open>example_annotated =
     \<lparr>doc_cells =
        [\<lparr>cell_type = ''markdown'',
          cell_source = ['' # Table of Contents\<newline>'',
                         ''+ [Intro\<newline>](#Intro_0)\<newline>'',
                         CHR 0x09 # ''+ [Details\<newline>](#Details_1)\<newline>''],
          cell_other = [(''id'', JStr ''0a1b2c3d''), (''metadata'', JObj [])]\<rparr>,
         \<lparr>cell_type = ''markdown'',
          cell_source = [''<a class="anchor" id="Intro_0"></a>\<newline>'', ''# Intro\<newline>''],
          cell_other = []\<rparr>,
         \<lparr>cell_type = ''code'', cell_source = [''print(1)''], cell_other = []\<rparr>,
         \<lparr>cell_type = ''markdown'',
          cell_source = [''<a class="anchor" id="Details_1"></a>\<newline>'', ''## Details\<newline>''],
          cell_other = []\<rparr>],
      doc_other = []\<rparr>\<close>

section \<open>The heading table and the loop, in closed form\<close>

lemma keys_ok_Nil: "keys_ok []"
  by (simp add: keys_ok_def)

lemma dict_set_fresh: "k \<notin> fst ` set d \<Longrightarrow> dict_set d k v = d @ [(k, v)]"
  by (induction d) auto

lemma keys_ok_fresh: "keys_ok d \<Longrightarrow> length d \<notin> fst ` set d"
proof -
  assume "keys_ok d"
  then have "set (map fst d) = {0..<length d}" by (simp add: keys_ok_def)
  then show ?thesis by (metis atLeastLessThan_iff less_irrefl set_map)
qed

lemma dict_set_len: "keys_ok d \<Longrightarrow> dict_set d (length d) v = d @ [(length d, v)]"
  by (simp add: dict_set_fresh keys_ok_fresh)

lemma keys_ok_snoc: "keys_ok d \<Longrightarrow> keys_ok (d @ [(length d, v)])"
  by (simp add: keys_ok_def)

lemma new_entries_Nil: "new_entries n [] = []"
  by (simp add: new_entries_def)

lemma new_entries_Cons: "new_entries n (w # ws) = (n, new_entry w n) # new_entries (Suc n) ws"
  by (simp add: new_entries_def)

lemma length_new_entries: "length (new_entries n ws) = length ws"
  by (simp add: new_entries_def)

lemma keys_new_entries: "map fst (new_entries n ws) = [n..<n + length ws]"
  by (induction ws arbitrary: n) (simp_all add: new_entries_Nil new_entries_Cons upt_rec)

lemma keys_ok_append: "keys_ok d \<Longrightarrow> keys_ok (d @ new_entries (length d) ws)"
  by (simp add: keys_ok_def keys_new_entries upt_add_eq_append[symmetric] length_new_entries)

lemma extract_info_step:
  "extract_info (word # rest) titles =
     (if startswith word ''#''
      then extract_info rest (dict_set titles (length titles) (new_entry word (length titles)))
      else extract_info rest titles)"
  by (simp add: new_entry_def Let_def)

lemma extract_info_entries:
  "keys_ok titles \<Longrightarrow>
   extract_info source titles = titles @ new_entries (length titles) (heading_lines source)"
proof (induction source arbitrary: titles)
  case Nil
  then show ?case by (simp add: heading_lines_def new_entries_Nil)
next
  case (Cons word rest)
  show ?case
  proof (cases "startswith word ''#''")
    case True
    let ?t = "titles @ [(length titles, new_entry word (length titles))]"
    have ok: "keys_ok ?t" using Cons.prems by (rule keys_ok_snoc)
    have "extract_info (word # rest) titles = extract_info rest ?t"
      using True Cons.prems by (simp only: extract_info_step dict_set_len if_True)
    also have "\<dots> = ?t @ new_entries (length ?t) (heading_lines rest)"
      using Cons.IH[OF ok] .
    also have "\<dots> = titles @ new_entries (length titles) (heading_lines (word # rest))"
      using True by (simp add: heading_lines_def new_entries_Cons)
    finally show ?thesis .
  next
    case False
    then show ?thesis using Cons by (simp add: extract_info_step heading_lines_def)
  qed
qed

lemma map_of_keys_ok: "keys_ok d \<Longrightarrow> k < length d \<Longrightarrow> map_of d k = Some (snd (d ! k))"
proof -
  assume ok: "keys_ok d" and k: "k < length d"
  have dist: "distinct (map fst d)" using ok by (simp add: keys_ok_def)
  have "fst (d ! k) = k"
    using ok k by (metis keys_ok_def nth_map nth_upt add_0 length_map)
  then have "(k, snd (d ! k)) \<in> set d"
    using k by (metis nth_mem prod.collapse)
  then show ?thesis using dist by simp
qed

lemma dict_get_keys_ok: "keys_ok d \<Longrightarrow> k < length d \<Longrightarrow> dict_get d k = Inr (snd (d ! k))"
  by (simp add: dict_get_def map_of_keys_ok)

lemma create_source_anchor_result:
  "source \<noteq> [] \<Longrightarrow>
   create_source_anchor source values colors =
     Inr (anchor_tag (h_anchor values) # heading_line values colors # tl source)"
  by (cases source; cases colors)
     (simp_all add: create_source_anchor_def maquillate_def anchor_tag_def heading_line_def
        shown_title_def Let_def)

lemma new_entries_append:
  "new_entries n (xs @ ys) = new_entries n xs @ new_entries (n + length xs) ys"
  by (simp add: new_entries_def enumerate_append_eq)

lemma last_new_entries:
  assumes "ws \<noteq> []"
  shows "last (new_entries n ws) = (n + length ws - 1, new_entry (last ws) (n + length ws - 1))"
proof -
  from assms have ws: "ws = butlast ws @ [last ws]" by simp
  have "new_entries n ws = new_entries n (butlast ws)
          @ [(n + length (butlast ws), new_entry (last ws) (n + length (butlast ws)))]"
    by (subst ws, simp only: new_entries_append) (simp add: new_entries_Cons new_entries_Nil)
  moreover have "n + length (butlast ws) = n + length ws - 1" using assms by (cases ws) auto
  ultimately show ?thesis by simp
qed

lemma heading_lines_qualifies: "qualifies cell \<Longrightarrow> heading_lines (cell_source cell) \<noteq> []"
  by (cases "cell_source cell") (auto simp: qualifies_def heading_lines_def)

lemma cells_loop_result:
  "keys_ok info \<Longrightarrow>
   cells_loop colors cells (info, out) =
     Inr (info @ new_entries (length info) (doc_heading_lines cells),
          out @ annotate_all colors (length info) cells)"
proof (induction cells arbitrary: info out)
  case Nil
  then show ?case by (simp add: doc_heading_lines_def new_entries_Nil)
next
  case (Cons cell rest)
  show ?case
  proof (cases "qualifies cell")
    case False
    then have step: "cells_loop colors (cell # rest) (info, out)
        = cells_loop colors rest (info, out @ [cell])"
      by (auto simp: qualifies_def Let_def)
    from False show ?thesis
      unfolding step Cons.IH[OF Cons.prems]
      by (simp add: doc_heading_lines_def annotate_cell_def cell_count_def)
  next
    case True
    let ?src = "cell_source cell"
    let ?ws = "heading_lines ?src"
    let ?info = "info @ new_entries (length info) ?ws"
    let ?entry = "new_entry (last ?ws) (length info + length ?ws - 1)"
    have ws: "?ws \<noteq> []" using True by (rule heading_lines_qualifies)
    have src: "?src \<noteq> []" using True by (simp add: qualifies_def)
    have ex: "extract_info ?src info = ?info"
      using Cons.prems by (rule extract_info_entries)
    have ok: "keys_ok ?info" using Cons.prems by (rule keys_ok_append)
    have len: "length ?info = length info + length ?ws" by (simp add: length_new_entries)
    have pos: "0 < length ?ws" using ws by simp
    have nth: "?info ! (length ?info - 1) = last (new_entries (length info) ?ws)"
      using ws pos
      by (metis (no_types, lifting) Nil_is_append_conv last_appendR last_conv_nth
          length_0_conv length_new_entries)
    have get: "dict_get ?info (nat (int (length ?info) - 1)) = Inr ?entry"
    proof -
      have "nat (int (length ?info) - 1) = length ?info - 1" by simp
      moreover have "length ?info - 1 < length ?info" using len pos by simp
      ultimately show ?thesis
        using dict_get_keys_ok[OF ok, of "length ?info - 1"] nth last_new_entries[OF ws, of "length info"]
        by simp
    qed
    have nonneg: "\<not> int (length ?info) - 1 < 0" using len pos by linarith
    have step: "cells_loop colors (cell # rest) (info, out)
        = cells_loop colors rest (?info, out @ [annotate_cell colors (length info) cell])"
      using True src nonneg
      apply (simp only: cells_loop.simps Let_def ex get create_source_anchor_result[OF src])
      apply (simp add: qualifies_def annotate_cell_def Let_def)
      done
    show ?thesis
      unfolding step Cons.IH[OF ok]
      using True
      by (simp add: doc_heading_lines_def cell_count_def new_entries_append length_new_entries)
  qed
qed

section \<open>The contents cell and the transformation, in closed form\<close>

text \<open>On the anchor itself the pattern matches once, from start to end.\<close>

lemma match_here_self: "match_here lit True False lit = Some (length lit)"
  by (cases lit) (simp_all add: match_here_def match_lit_def match_tail_def startswith_def Let_def)

lemma re_sub_at_end: "re_sub lit False m [] = []"
  by (subst re_sub.simps) (simp add: match_here_def)

lemma re_sub_empty: "re_sub [] True True [] = []"
  by (subst re_sub.simps) (simp add: match_here_def match_lit_def match_tail_def startswith_def)

lemma re_sub_self: "re_sub lit True False lit = ''(#'' @ lit @ '')''"
  by (subst re_sub.simps) (simp add: match_here_self re_sub_at_end re_sub_empty)

lemma format_title_index_result:
  "keys_ok titles \<Longrightarrow> k < length titles \<Longrightarrow>
   format_title_index k titles = Inr (contents_line (snd (titles ! k)))"
  by (simp add: format_title_index_def dict_get_keys_ok re_sub_self contents_line_def Let_def)

lemma contents_loop_result:
  "keys_ok titles \<Longrightarrow> \<forall>k \<in> set ks. k < length titles \<Longrightarrow>
   contents_loop titles ks toc =
     Inr (toc\<lparr>cell_source := cell_source toc @ map (\<lambda>k. contents_line (snd (titles ! k))) ks\<rparr>)"
  by (induction ks arbitrary: toc) (simp_all add: format_title_index_result)

lemma sorted_keys: "keys_ok titles \<Longrightarrow> sort (map fst titles) = [0..<length titles]"
  by (simp add: keys_ok_def sorted_sort_id)

lemma generate_contents_result:
  assumes "keys_ok titles"
  shows "generate_contents cell_id titles =
     Inr \<lparr>cell_type = ''markdown'',
          cell_source = '' # Table of Contents\<newline>'' # map (\<lambda>e. contents_line (snd e)) titles,
          cell_other = [(''id'', JStr cell_id), (''metadata'', JObj [])]\<rparr>"
proof -
  have "map (\<lambda>k. contents_line (snd (titles ! k))) [0..<length titles]
        = map (\<lambda>e. contents_line (snd e)) titles"
    by (rule nth_equalityI) simp_all
  then show ?thesis
    using assms
    by (simp add: generate_contents_def sorted_keys contents_loop_result Let_def)
qed

text \<open>The transformation never raises: its result in closed form.\<close>

lemma generate_new_cells_result:
  "generate_new_cells cells colors =
     Inr (new_entries 0 (doc_heading_lines cells), annotate_all colors 0 cells)"
  using cells_loop_result[OF keys_ok_Nil, of colors cells "[]"]
  by (simp add: generate_new_cells_def)

lemma keys_ok_new_entries: "keys_ok (new_entries 0 ws)"
  using keys_ok_append[OF keys_ok_Nil, of ws] by simp

lemma create_new_document_result:
  "create_new_document cell_id document colors =
     Inr (document\<lparr>doc_cells :=
       \<lparr>cell_type = ''markdown'',
        cell_source = '' # Table of Contents\<newline>''
          # map (\<lambda>e. contents_line (snd e)) (new_entries 0 (doc_heading_lines (doc_cells document))),
        cell_other = [(''id'', JStr cell_id), (''metadata'', JObj [])]\<rparr>
       # annotate_all colors 0 (doc_cells document)\<rparr>)"
  by (simp add: create_new_document_def generate_new_cells_result
      generate_contents_result[OF keys_ok_new_entries])

text \<open>Cells that take a \<open>continue\<close> branch add nothing and are not changed.\<close>

lemma annotate_all_passthrough:
  "\<forall>cell \<in> set cells. \<not> qualifies cell \<Longrightarrow> annotate_all colors n cells = cells"
  by (induction cells arbitrary: n) (simp_all add: annotate_cell_def cell_count_def)

lemma doc_heading_lines_passthrough:
  "\<forall>cell \<in> set cells. \<not> qualifies cell \<Longrightarrow> doc_heading_lines cells = []"
  by (induction cells) (simp_all add: doc_heading_lines_def)

text \<open>An empty colour list and no colour list give the same cells.\<close>

lemma shown_title_empty: "shown_title values (Some []) = shown_title values None"
  by (simp add: shown_title_def)

lemma annotate_all_empty_colors: "annotate_all (Some []) n cells = annotate_all None n cells"
  by (induction cells arbitrary: n)
     (simp_all add: annotate_cell_def heading_line_def shown_title_empty)

text \<open>The closed form of the loop over a document cut in two.\<close>

lemma doc_heading_lines_append:
  "doc_heading_lines (xs @ ys) = doc_heading_lines xs @ doc_heading_lines ys"
  by (simp add: doc_heading_lines_def)

lemma cell_count_lines: "cell_count cell = length (doc_heading_lines [cell])"
  by (simp add: cell_count_def doc_heading_lines_def)

lemma annotate_all_append:
  "annotate_all colors n (xs @ ys) =
     annotate_all colors n xs @ annotate_all colors (n + length (doc_heading_lines xs)) ys"
proof (induction xs arbitrary: n)
  case Nil
  then show ?case by (simp add: doc_heading_lines_def)
next
  case (Cons x xs)
  have "doc_heading_lines (x # xs) = doc_heading_lines [x] @ doc_heading_lines xs"
    using doc_heading_lines_append[of "[x]" xs] by simp
  then show ?case by (simp add: Cons.IH cell_count_lines add.assoc)
qed

lemma length_annotate_all: "length (annotate_all colors n cells) = length cells"
  by (induction cells arbitrary: n) simp_all

section \<open>The example document\<close>

text \<open>
  C1, as the spec states it, fails: it expects the contents lines
  \<open>+ [Intro](#Intro_0)\<close> and \<open>+ [Details](#Details_1)\<close> (the second behind a tab), but a
  title is the whole rest of its line, so the newline that ends the heading line stands
  inside the brackets. The lines after the header are not the ones of the claim.
\<close>

theorem example_contents_not_as_claimed:
  \<open>(case create_new_document ''0a1b2c3d'' \<lparr>doc_cells = example_cells, doc_other = []\<rparr> None of
      Inl e \<Rightarrow> []
    | Inr d \<Rightarrow> tl (cell_source (hd (doc_cells d))))
   \<noteq> [''+ [Intro](#Intro_0)\<newline>'', CHR 0x09 # ''+ [Details](#Details_1)\<newline>'']\<close>
  by code_simp

text \<open>
  C1, amended: for the example document and no colours, whatever identifier is drawn
  and whatever other keys the document has, the result has four cells. The first is the
  contents cell, whose lines after the header are \<open>+ [Intro\n](#Intro_0)\n\<close> and
  \<open>\t+ [Details\n](#Details_1)\n\<close>, each title with the newline of its heading line. The
  second is the Intro cell with the anchor tag line of id \<open>Intro_0\<close> before its heading
  line, the third is the code cell unchanged, and the fourth is the Details cell with the
  anchor tag line of id \<open>Details_1\<close> before its heading line.
\<close>

theorem example_transformed:
  \<open>create_new_document cell_id \<lparr>doc_cells = example_cells, doc_other = rest\<rparr> None =
   Inr \<lparr>doc_cells =
     [\<lparr>cell_type = ''markdown'',
       cell_source = ['' # Table of Contents\<newline>'',
                      ''+ [Intro\<newline>](#Intro_0)\<newline>'',
                      CHR 0x09 # ''+ [Details\<newline>](#Details_1)\<newline>''],
       cell_other = [(''id'', JStr cell_id), (''metadata'', JObj [])]\<rparr>,
      \<lparr>cell_type = ''markdown'',
       cell_source = [''<a class="anchor" id="Intro_0"></a>\<newline>'', ''# Intro\<newline>''],
       cell_other = []\<rparr>,
      \<lparr>cell_type = ''code'', cell_source = [''print(1)''], cell_other = []\<rparr>,
      \<lparr>cell_type = ''markdown'',
       cell_source = [''<a class="anchor" id="Details_1"></a>\<newline>'', ''## Details\<newline>''],
       cell_other = []\<rparr>],
    doc_other = rest\<rparr>\<close>
  by (simp add: create_new_document_def generate_new_cells_def example_cells_def startswith_def
      create_source_anchor_def dict_get_def str_times_def rstrip_def replace_space_def isspace_def
      str_nat.simps digit_char_def generate_contents_def format_title_index_def re_sub.simps
      match_here_def match_lit_def match_tail_def is_word_def Let_def)

section \<open>Documents without markdown cells\<close>

text \<open>
  C6: when no cell of the document has \<open>cell_type\<close> \<open>markdown\<close>, the transformation
  returns the document with one cell put before its cells and nothing else changed: a
  markdown cell with the drawn identifier, empty metadata, and a source that is only the
  header line \<open> # Table of Contents\<close> (stored with its newline). This holds for every
  colour configuration.
\<close>

theorem no_markdown_only_header:
  assumes "\<forall>cell \<in> set (doc_cells document). cell_type cell \<noteq> ''markdown''"
  shows "create_new_document cell_id document colors =
     Inr (document\<lparr>doc_cells :=
       \<lparr>cell_type = ''markdown'',
        cell_source = ['' # Table of Contents\<newline>''],
        cell_other = [(''id'', JStr cell_id), (''metadata'', JObj [])]\<rparr>
       # doc_cells document\<rparr>)"
proof -
  from assms have nq: "\<forall>cell \<in> set (doc_cells document). \<not> qualifies cell"
    by (simp add: qualifies_def)
  show ?thesis
    unfolding create_new_document_result
    by (simp add: annotate_all_passthrough[OF nq] doc_heading_lines_passthrough[OF nq]
        new_entries_Nil)
qed

text \<open>The theorem at a document of a code cell and a raw cell.\<close>

theorem no_markdown_only_header_witness:
  "create_new_document ''0a1b2c3d''
     \<lparr>doc_cells = [\<lparr>cell_type = ''code'', cell_source = [''# not a heading''], cell_other = []\<rparr>,
                  \<lparr>cell_type = ''raw'', cell_source = [], cell_other = []\<rparr>],
      doc_other = [(''nbformat'', JInt 4)]\<rparr> (Some [''red'']) =
   Inr \<lparr>doc_cells =
          [\<lparr>cell_type = ''markdown'',
            cell_source = ['' # Table of Contents\<newline>''],
            cell_other = [(''id'', JStr ''0a1b2c3d''), (''metadata'', JObj [])]\<rparr>,
           \<lparr>cell_type = ''code'', cell_source = [''# not a heading''], cell_other = []\<rparr>,
           \<lparr>cell_type = ''raw'', cell_source = [], cell_other = []\<rparr>],
        doc_other = [(''nbformat'', JInt 4)]\<rparr>"
  using no_markdown_only_header[of
      "\<lparr>doc_cells = [\<lparr>cell_type = ''code'', cell_source = [''# not a heading''], cell_other = []\<rparr>,
                  \<lparr>cell_type = ''raw'', cell_source = [], cell_other = []\<rparr>],
      doc_other = [(''nbformat'', JInt 4)]\<rparr>" "''0a1b2c3d''" "Some [''red'']"]
  by simp

section \<open>The empty colour list\<close>

text \<open>
  C10: with the colour configuration present but empty, \<open>create_source_anchor\<close>
  returns what it returns without colours, the whole transformation returns the same
  document as without colours, and that result is a document, not an error: the empty
  list never reaches the division in \<open>maquillate\<close>.
\<close>

theorem empty_colors_as_none:
  "create_source_anchor source values (Some []) = create_source_anchor source values None
   \<and> create_new_document cell_id document (Some []) = create_new_document cell_id document None
   \<and> (\<exists>d. create_new_document cell_id document (Some []) = Inr d)"
proof -
  have "create_source_anchor source values (Some []) = create_source_anchor source values None"
    by (simp add: create_source_anchor_def)
  moreover have "create_new_document cell_id document (Some [])
      = create_new_document cell_id document None"
    by (simp only: create_new_document_result annotate_all_empty_colors)
  moreover have "\<exists>d. create_new_document cell_id document (Some []) = Inr d"
    by (simp only: create_new_document_result) blast
  ultimately show ?thesis by blast
qed

section \<open>Cells that are passed through\<close>

text \<open>
  C5: a cell whose \<open>cell_type\<close> is not \<open>markdown\<close>, or a markdown cell whose source is
  empty or whose first line does not start with \<open>#\<close>, is appended to the output as it
  is, and the loop goes on with the heading table it had. In the result for a whole
  document the cell stands unchanged at its own place, and the table and every other
  output cell are the ones the document without that cell gives: the cell neither reads
  nor changes the table.
\<close>

theorem passthrough_cell_unchanged:
  assumes "cell_type cell \<noteq> ''markdown'' \<or> cell_source cell = []
           \<or> \<not> startswith (hd (cell_source cell)) ''#''"
  shows "cells_loop colors (cell # rest) (info_to_add, new_cells)
           = cells_loop colors rest (info_to_add, new_cells @ [cell])
         \<and> (\<exists>info out.
               generate_new_cells (before @ cell # after) colors = Inr (info, out)
               \<and> length out = length (before @ cell # after)
               \<and> out ! length before = cell
               \<and> generate_new_cells (before @ after) colors
                   = Inr (info, take (length before) out @ drop (Suc (length before)) out))"
proof -
  from assms have nq: "\<not> qualifies cell" by (auto simp: qualifies_def)
  have step: "cells_loop colors (cell # rest) (info_to_add, new_cells)
           = cells_loop colors rest (info_to_add, new_cells @ [cell])"
    using assms by (auto simp: Let_def)
  let ?n = "length (doc_heading_lines before)"
  let ?out = "annotate_all colors 0 (before @ cell # after)"
  have lines: "doc_heading_lines (before @ cell # after) = doc_heading_lines (before @ after)"
    using nq by (simp add: doc_heading_lines_def)
  have out: "?out = annotate_all colors 0 before @ cell # annotate_all colors ?n after"
    using nq by (simp add: annotate_all_append annotate_cell_def cell_count_def)
  have lb: "length (annotate_all colors 0 before) = length before"
    by (rule length_annotate_all)
  have nth: "?out ! length before = cell"
    unfolding out using lb by (metis nth_append_length)
  have rest: "take (length before) ?out @ drop (Suc (length before)) ?out
      = annotate_all colors 0 (before @ after)"
    unfolding out using lb by (simp add: annotate_all_append)
  have "generate_new_cells (before @ cell # after) colors
      = Inr (new_entries 0 (doc_heading_lines (before @ after)), ?out)"
    by (simp only: generate_new_cells_result lines)
  moreover have "length ?out = length (before @ cell # after)"
    by (rule length_annotate_all)
  moreover have "generate_new_cells (before @ after) colors
      = Inr (new_entries 0 (doc_heading_lines (before @ after)),
             take (length before) ?out @ drop (Suc (length before)) ?out)"
    by (simp only: generate_new_cells_result rest)
  ultimately show ?thesis using step nth by blast
qed

text \<open>
  The theorem at a markdown cell whose first line is plain text and whose second line
  starts with \<open>#\<close>, between two heading cells.
\<close>

theorem passthrough_cell_unchanged_witness:
  "cells_loop None
     [\<lparr>cell_type = ''markdown'', cell_source = [''plain\<newline>'', ''# late''], cell_other = []\<rparr>]
     ([], [])
   = cells_loop None []
       ([], [\<lparr>cell_type = ''markdown'', cell_source = [''plain\<newline>'', ''# late''],
               cell_other = []\<rparr>])
   \<and> (\<exists>info out.
         generate_new_cells
           [\<lparr>cell_type = ''markdown'', cell_source = [''# A''], cell_other = []\<rparr>,
            \<lparr>cell_type = ''markdown'', cell_source = [''plain\<newline>'', ''# late''], cell_other = []\<rparr>,
            \<lparr>cell_type = ''markdown'', cell_source = [''## B''], cell_other = []\<rparr>] None
           = Inr (info, out)
         \<and> length out = 3
         \<and> out ! 1 = \<lparr>cell_type = ''markdown'', cell_source = [''plain\<newline>'', ''# late''],
                       cell_other = []\<rparr>
         \<and> generate_new_cells
             [\<lparr>cell_type = ''markdown'', cell_source = [''# A''], cell_other = []\<rparr>,
              \<lparr>cell_type = ''markdown'', cell_source = [''## B''], cell_other = []\<rparr>] None
             = Inr (info, take 1 out @ drop 2 out))"
  using passthrough_cell_unchanged[where
      cell = "\<lparr>cell_type = ''markdown'', cell_source = [''plain\<newline>'', ''# late''], cell_other = []\<rparr>"
      and colors = None and rest = "[]" and info_to_add = "[]" and new_cells = "[]"
      and before = "[\<lparr>cell_type = ''markdown'', cell_source = [''# A''], cell_other = []\<rparr>]"
      and after = "[\<lparr>cell_type = ''markdown'', cell_source = [''## B''], cell_other = []\<rparr>]"]
  by (simp add: startswith_def numeral_2_eq_2 numeral_3_eq_3)

section \<open>Cells with several heading lines\<close>

text \<open>
  C4: let a markdown cell whose first line starts with \<open>#\<close> hold \<open>k\<close> lines that
  start with \<open>#\<close>, and let it be met when the table has \<open>n\<close> entries. Then \<open>k\<close> is at
  least one, the \<open>k\<close> lines get the consecutive keys \<open>n, ..., n + k - 1\<close>, and the output
  cell is the input cell with one anchor tag line put first. That tag holds the anchor of
  the last entry added; the line after it, which takes the place of the cell's first
  line, is built from the level and the title of that same last entry; the other lines
  of the source follow unchanged.
\<close>

theorem heading_cell_one_anchor:
  assumes "cell_type cell = ''markdown''" and "cell_source cell \<noteq> []"
    and "startswith (hd (cell_source cell)) ''#''"
    and "generate_new_cells before colors = Inr (info_to_add, new_cells)"
  shows "(let ws = heading_lines (cell_source cell);
              n = length info_to_add;
              values = new_entry (last ws) (n + length ws - 1)
          in 1 \<le> length ws
             \<and> map fst (new_entries n ws) = [n..<n + length ws]
             \<and> snd (last (new_entries n ws)) = values
             \<and> generate_new_cells (before @ [cell]) colors =
                 Inr (info_to_add @ new_entries n ws,
                      new_cells @ [cell\<lparr>cell_source :=
                        anchor_tag (h_anchor values) # heading_line values colors
                        # tl (cell_source cell)\<rparr>]))"
proof -
  let ?ws = "heading_lines (cell_source cell)"
  let ?n = "length info_to_add"
  let ?entry = "new_entry (last ?ws) (?n + length ?ws - 1)"
  from assms(1-3) have q: "qualifies cell" by (simp add: qualifies_def)
  then have ws: "?ws \<noteq> []" by (rule heading_lines_qualifies)
  from assms(4) have info: "info_to_add = new_entries 0 (doc_heading_lines before)"
    and out: "new_cells = annotate_all colors 0 before"
    by (simp_all add: generate_new_cells_result)
  have n: "?n = length (doc_heading_lines before)"
    by (simp add: info length_new_entries)
  have lines: "doc_heading_lines (before @ [cell]) = doc_heading_lines before @ ?ws"
    using q by (simp add: doc_heading_lines_def)
  have "new_entries 0 (doc_heading_lines (before @ [cell]))
      = info_to_add @ new_entries ?n ?ws"
    by (simp add: lines new_entries_append info length_new_entries)
  moreover have "annotate_all colors 0 (before @ [cell])
      = new_cells @ [cell\<lparr>cell_source :=
            anchor_tag (h_anchor ?entry) # heading_line ?entry colors # tl (cell_source cell)\<rparr>]"
    using q by (simp add: annotate_all_append out annotate_cell_def Let_def n)
  ultimately have gen: "generate_new_cells (before @ [cell]) colors =
      Inr (info_to_add @ new_entries ?n ?ws,
           new_cells @ [cell\<lparr>cell_source :=
             anchor_tag (h_anchor ?entry) # heading_line ?entry colors # tl (cell_source cell)\<rparr>])"
    by (simp only: generate_new_cells_result)
  have "1 \<le> length ?ws" using ws by (cases ?ws) simp_all
  moreover have "map fst (new_entries ?n ?ws) = [?n..<?n + length ?ws]"
    by (rule keys_new_entries)
  moreover have "snd (last (new_entries ?n ?ws)) = ?entry"
    by (simp add: last_new_entries[OF ws])
  ultimately show ?thesis using gen by (simp only: Let_def)
qed

text \<open>
  The theorem at a cell with three heading lines, met after one heading: the keys are
  1, 2 and 3, and the one tag and the line after it are those of the third heading.
\<close>

theorem heading_cell_one_anchor_witness:
  \<open>generate_new_cells
     [\<lparr>cell_type = ''markdown'', cell_source = [''# Intro\<newline>''], cell_other = []\<rparr>,
      \<lparr>cell_type = ''markdown'',
       cell_source = [''# A\<newline>'', ''text\<newline>'', ''## B\<newline>'', ''### C''], cell_other = []\<rparr>] None =
   Inr ([(0, \<lparr>h_title = ''Intro\<newline>'', h_level = 0, h_anchor = ''Intro_0''\<rparr>),
         (1, \<lparr>h_title = ''A\<newline>'', h_level = 0, h_anchor = ''A_1''\<rparr>),
         (2, \<lparr>h_title = ''B\<newline>'', h_level = 1, h_anchor = ''B_2''\<rparr>),
         (3, \<lparr>h_title = ''C'', h_level = 2, h_anchor = ''C_3''\<rparr>)],
        [\<lparr>cell_type = ''markdown'',
          cell_source = [''<a class="anchor" id="Intro_0"></a>\<newline>'', ''# Intro\<newline>''],
          cell_other = []\<rparr>,
         \<lparr>cell_type = ''markdown'',
          cell_source = [''<a class="anchor" id="C_3"></a>\<newline>'', ''### C'', ''text\<newline>'',
                         ''## B\<newline>'', ''### C''],
          cell_other = []\<rparr>])\<close>
proof -
  have before: \<open>generate_new_cells
      [\<lparr>cell_type = ''markdown'', cell_source = [''# Intro\<newline>''], cell_other = []\<rparr>] None =
    Inr ([(0, \<lparr>h_title = ''Intro\<newline>'', h_level = 0, h_anchor = ''Intro_0''\<rparr>)],
         [\<lparr>cell_type = ''markdown'',
           cell_source = [''<a class="anchor" id="Intro_0"></a>\<newline>'', ''# Intro\<newline>''],
           cell_other = []\<rparr>])\<close>
    by code_simp
  have h1: "cell_type \<lparr>cell_type = ''markdown'',
          cell_source = [''# A\<newline>'', ''text\<newline>'', ''## B\<newline>'', ''### C''], cell_other = []\<rparr>
        = ''markdown''" by simp
  have h2: "cell_source \<lparr>cell_type = ''markdown'',
          cell_source = [''# A\<newline>'', ''text\<newline>'', ''## B\<newline>'', ''### C''], cell_other = []\<rparr>
        \<noteq> []" by simp
  have h3: "startswith (hd (cell_source \<lparr>cell_type = ''markdown'',
          cell_source = [''# A\<newline>'', ''text\<newline>'', ''## B\<newline>'', ''### C''], cell_other = []\<rparr>))
        ''#''" by (simp add: startswith_def)
  show ?thesis
    using heading_cell_one_anchor[OF h1 h2 h3 before]
    by code_simp
qed

section \<open>Colours\<close>

text \<open>
  C7: with a non-empty colour list, \<open>maquillate\<close> wraps the title in a span whose colour
  is the entry of the list at index \<open>level mod len(colors)\<close>, an index inside the list,
  and \<open>create_source_anchor\<close> writes the heading line with the title of its entry
  wrapped so, by the level of that entry.
\<close>

theorem colors_cycle_by_level:
  assumes "colors \<noteq> []" and "source \<noteq> []"
  shows \<open>maquillate title level colors =
           Inr (''<span style="color: '' @ colors ! nat (level mod int (length colors)) @ ''">''
                @ title @ ''</span>'')
         \<and> nat (level mod int (length colors)) < length colors
         \<and> create_source_anchor source values (Some colors) =
             Inr ((''<a class="anchor" id="'' @ h_anchor values @ ''"></a>\<newline>'')
                  # (''#'' @ str_times CHR ''#'' (h_level values) @ '' ''
                     @ ''<span style="color: ''
                     @ colors ! nat (h_level values mod int (length colors)) @ ''">''
                     @ h_title values @ ''</span>'')
                  # tl source)\<close>
proof -
  from assms(1) have pos: "0 < int (length colors)" by simp
  have "nat (level mod int (length colors)) < length colors"
    using pos by (metis nat_less_iff pos_mod_bound pos_mod_sign)
  moreover have \<open>maquillate title level colors =
           Inr (''<span style="color: '' @ colors ! nat (level mod int (length colors)) @ ''">''
                @ title @ ''</span>'')\<close>
    using assms(1) by (simp add: maquillate_def)
  moreover have \<open>create_source_anchor source values (Some colors) =
             Inr ((''<a class="anchor" id="'' @ h_anchor values @ ''"></a>\<newline>'')
                  # (''#'' @ str_times CHR ''#'' (h_level values) @ '' ''
                     @ ''<span style="color: ''
                     @ colors ! nat (h_level values mod int (length colors)) @ ''">''
                     @ h_title values @ ''</span>'')
                  # tl source)\<close>
    using assms
    by (simp add: create_source_anchor_result anchor_tag_def heading_line_def shown_title_def)
  ultimately show ?thesis by blast
qed

text \<open>
  The theorem at the colours red and blue: level 0 gives red, level 1 blue, and level 2
  red again.
\<close>

theorem colors_cycle_by_level_witness:
  \<open>maquillate ''Intro'' 0 [''red'', ''blue''] = Inr ''<span style="color: red">Intro</span>''
   \<and> maquillate ''Intro'' 1 [''red'', ''blue''] = Inr ''<span style="color: blue">Intro</span>''
   \<and> maquillate ''Intro'' 2 [''red'', ''blue''] = Inr ''<span style="color: red">Intro</span>''
   \<and> create_source_anchor [''## Intro'']
        \<lparr>h_title = ''Intro'', h_level = 1, h_anchor = ''Intro_0''\<rparr> (Some [''red'', ''blue'']) =
       Inr [''<a class="anchor" id="Intro_0"></a>\<newline>'',
            ''## <span style="color: blue">Intro</span>'']\<close>
  using colors_cycle_by_level[of "[''red'', ''blue'']" "[''## Intro'']" "''Intro''" 0
      "\<lparr>h_title = ''Intro'', h_level = 1, h_anchor = ''Intro_0''\<rparr>"]
    colors_cycle_by_level[of "[''red'', ''blue'']" "[''## Intro'']" "''Intro''" 1
      "\<lparr>h_title = ''Intro'', h_level = 1, h_anchor = ''Intro_0''\<rparr>"]
    colors_cycle_by_level[of "[''red'', ''blue'']" "[''## Intro'']" "''Intro''" 2
      "\<lparr>h_title = ''Intro'', h_level = 1, h_anchor = ''Intro_0''\<rparr>"]
  by (simp add: str_times_def)

section \<open>Anchors are distinct\<close>

text \<open>A decimal numeral holds digits only, and two numbers with the same numeral are equal.\<close>

lemma digit_char_in: "d < 10 \<Longrightarrow> digit_char d \<in> set ''0123456789''"
  unfolding digit_char_def by (rule nth_mem) simp

lemma digit_char_inj: "d < 10 \<Longrightarrow> e < 10 \<Longrightarrow> digit_char d = digit_char e \<Longrightarrow> d = e"
proof -
  assume d: "d < 10" and e: "e < 10" and eq: "digit_char d = digit_char e"
  have dist: "distinct ''0123456789''" by simp
  have "d < length ''0123456789''" "e < length ''0123456789''" using d e by simp_all
  with dist eq show "d = e" unfolding digit_char_def by (simp only: nth_eq_iff_index_eq)
qed

lemma str_nat_digits: "set (str_nat n) \<subseteq> set ''0123456789''"
proof (induction n rule: str_nat.induct)
  case (1 n)
  show ?case
  proof (cases "n < 10")
    case True
    then show ?thesis using digit_char_in[of n] by (subst str_nat.simps) simp
  next
    case False
    have "n mod 10 < 10" by simp
    then have "digit_char (n mod 10) \<in> set ''0123456789''" by (rule digit_char_in)
    with False 1 show ?thesis by (subst str_nat.simps) simp
  qed
qed

lemma str_nat_not_empty: "str_nat n \<noteq> []"
  by (subst str_nat.simps) simp

lemma str_nat_inj: "str_nat n = str_nat m \<Longrightarrow> n = m"
proof (induction n arbitrary: m rule: str_nat.induct)
  case (1 n)
  show ?case
  proof (cases "n < 10")
    case True
    then have n: "str_nat n = [digit_char n]" by (subst str_nat.simps) simp
    show ?thesis
    proof (cases "m < 10")
      case m: True
      then have "str_nat m = [digit_char m]" by (subst str_nat.simps) simp
      with n "1.prems" have "digit_char n = digit_char m" by simp
      with True m show ?thesis by (rule digit_char_inj)
    next
      case False
      then have "str_nat m = str_nat (m div 10) @ [digit_char (m mod 10)]"
        by (subst str_nat.simps) simp
      with n "1.prems" have "str_nat (m div 10) = []" by (cases "str_nat (m div 10)") simp_all
      then show ?thesis using str_nat_not_empty by blast
    qed
  next
    case False
    then have n: "str_nat n = str_nat (n div 10) @ [digit_char (n mod 10)]"
      by (subst str_nat.simps) simp
    show ?thesis
    proof (cases "m < 10")
      case True
      then have "str_nat m = [digit_char m]" by (subst str_nat.simps) simp
      with n "1.prems" have "str_nat (n div 10) = []" by (cases "str_nat (n div 10)") simp_all
      then show ?thesis using str_nat_not_empty by blast
    next
      case m: False
      then have "str_nat m = str_nat (m div 10) @ [digit_char (m mod 10)]"
        by (subst str_nat.simps) simp
      with n "1.prems" have eq: "str_nat (n div 10) = str_nat (m div 10)"
        and dg: "digit_char (n mod 10) = digit_char (m mod 10)" by simp_all
      from "1.IH"[OF False eq] have q: "n div 10 = m div 10" .
      have "n mod 10 = m mod 10" using dg by (intro digit_char_inj) simp_all
      with q show ?thesis by (metis div_mult_mod_eq)
    qed
  qed
qed

lemma anchor_ordinal_suffix: "anchor_ordinal (s @ ''_'' @ str_nat k) = str_nat k"
proof -
  have "CHR ''_'' \<notin> set ''0123456789''" by simp
  then have no: "\<forall>c \<in> set (rev (str_nat k)). c \<noteq> CHR ''_''"
    using str_nat_digits[of k] by auto
  have "rev (s @ ''_'' @ str_nat k) = rev (str_nat k) @ CHR ''_'' # rev s" by simp
  then have "takeWhile (\<lambda>c. c \<noteq> CHR ''_'') (rev (s @ ''_'' @ str_nat k)) = rev (str_nat k)"
    using no by (simp add: takeWhile_tail)
  then show ?thesis by (simp add: anchor_ordinal_def)
qed

lemma anchor_ordinal_suffix': "anchor_ordinal (s @ CHR ''_'' # str_nat k) = str_nat k"
  using anchor_ordinal_suffix[of s k] by simp

lemma anchor_new_entry: "h_anchor (new_entry word k) = slug word @ ''_'' @ str_nat k"
  by (simp add: new_entry_def slug_def)

lemma anchors_new_entries:
  "map (\<lambda>e. h_anchor (snd e)) (new_entries n ws)
     = map (\<lambda>(k, word). slug word @ ''_'' @ str_nat k) (enumerate n ws)"
  by (simp add: new_entries_def anchor_new_entry split_def)

lemma ordinals_new_entries:
  "map (\<lambda>e. anchor_ordinal (h_anchor (snd e))) (new_entries n ws) = map str_nat [n..<n + length ws]"
proof -
  have "map (\<lambda>e. anchor_ordinal (h_anchor (snd e))) (new_entries n ws)
      = map (\<lambda>e. str_nat (fst e)) (enumerate n ws)"
    by (simp add: new_entries_def anchor_new_entry anchor_ordinal_suffix' split_def)
  also have "\<dots> = map str_nat (map fst (enumerate n ws))"
    by (simp only: map_map comp_def)
  also have "\<dots> = map str_nat [n..<n + length ws]"
    by (simp only: map_fst_enumerate)
  finally show ?thesis .
qed

lemma distinct_anchors_new_entries:
  "distinct (map (\<lambda>e. h_anchor (snd e)) (new_entries n ws))"
proof -
  have "inj_on str_nat (set [n..<n + length ws])"
    by (rule inj_onI) (rule str_nat_inj)
  then have "distinct (map str_nat [n..<n + length ws])"
    by (simp add: distinct_map)
  then have "distinct (map anchor_ordinal (map (\<lambda>e. h_anchor (snd e)) (new_entries n ws)))"
    using ordinals_new_entries[of n ws] by (simp add: comp_def)
  then show ?thesis by (simp only: distinct_map)
qed

text \<open>
  C3: let the transformation record the table \<open>info_to_add\<close> for a document. The table
  has one entry for each recorded heading line, \<open>N\<close> of them; its keys are
  \<open>0, ..., N - 1\<close> in the order the lines are met; the anchor of entry \<open>k\<close> is the slug
  of the \<open>k\<close>-th line, an underscore, and the decimal numeral of \<open>k\<close>; and the \<open>N\<close>
  anchors are pairwise distinct.
\<close>

theorem anchors_distinct_and_ordered:
  assumes "generate_new_cells cells colors = Inr (info_to_add, new_cells)"
  shows "length info_to_add = length (doc_heading_lines cells)
         \<and> map fst info_to_add = [0..<length info_to_add]
         \<and> map (\<lambda>e. h_anchor (snd e)) info_to_add
             = map (\<lambda>(k, word). slug word @ ''_'' @ str_nat k)
                 (enumerate 0 (doc_heading_lines cells))
         \<and> distinct (map (\<lambda>e. h_anchor (snd e)) info_to_add)"
proof -
  from assms have info: "info_to_add = new_entries 0 (doc_heading_lines cells)"
    by (simp add: generate_new_cells_result)
  have "length info_to_add = length (doc_heading_lines cells)"
    by (simp only: info length_new_entries)
  moreover have "map fst info_to_add = [0..<length info_to_add]"
    using keys_new_entries[of 0 "doc_heading_lines cells"]
    by (simp add: info length_new_entries)
  moreover have "map (\<lambda>e. h_anchor (snd e)) info_to_add
             = map (\<lambda>(k, word). slug word @ ''_'' @ str_nat k)
                 (enumerate 0 (doc_heading_lines cells))"
    by (simp only: info anchors_new_entries)
  moreover have "distinct (map (\<lambda>e. h_anchor (snd e)) info_to_add)"
    by (simp only: info distinct_anchors_new_entries)
  ultimately show ?thesis by blast
qed

text \<open>
  The theorem at a document whose three recorded headings have the same title: the
  anchors differ by their ordinals.
\<close>

theorem anchors_distinct_and_ordered_witness:
  \<open>generate_new_cells
      [\<lparr>cell_type = ''markdown'', cell_source = [''# Same title\<newline>'', ''## Same title''],
        cell_other = []\<rparr>,
       \<lparr>cell_type = ''code'', cell_source = [''# Same title''], cell_other = []\<rparr>,
       \<lparr>cell_type = ''markdown'', cell_source = [''# Same title''], cell_other = []\<rparr>] None
    = Inr ([(0, \<lparr>h_title = ''Same title\<newline>'', h_level = 0, h_anchor = ''Same_title_0''\<rparr>),
            (1, \<lparr>h_title = ''Same title'', h_level = 1, h_anchor = ''Same_title_1''\<rparr>),
            (2, \<lparr>h_title = ''Same title'', h_level = 0, h_anchor = ''Same_title_2''\<rparr>)],
           [\<lparr>cell_type = ''markdown'',
             cell_source = [''<a class="anchor" id="Same_title_1"></a>\<newline>'', ''## Same title'',
                            ''## Same title''],
             cell_other = []\<rparr>,
            \<lparr>cell_type = ''code'', cell_source = [''# Same title''], cell_other = []\<rparr>,
            \<lparr>cell_type = ''markdown'',
             cell_source = [''<a class="anchor" id="Same_title_2"></a>\<newline>'', ''# Same title''],
             cell_other = []\<rparr>])
   \<and> distinct [''Same_title_0'', ''Same_title_1'', ''Same_title_2'']\<close>
proof -
  have run: \<open>generate_new_cells
      [\<lparr>cell_type = ''markdown'', cell_source = [''# Same title\<newline>'', ''## Same title''],
        cell_other = []\<rparr>,
       \<lparr>cell_type = ''code'', cell_source = [''# Same title''], cell_other = []\<rparr>,
       \<lparr>cell_type = ''markdown'', cell_source = [''# Same title''], cell_other = []\<rparr>] None
    = Inr ([(0, \<lparr>h_title = ''Same title\<newline>'', h_level = 0, h_anchor = ''Same_title_0''\<rparr>),
            (1, \<lparr>h_title = ''Same title'', h_level = 1, h_anchor = ''Same_title_1''\<rparr>),
            (2, \<lparr>h_title = ''Same title'', h_level = 0, h_anchor = ''Same_title_2''\<rparr>)],
           [\<lparr>cell_type = ''markdown'',
             cell_source = [''<a class="anchor" id="Same_title_1"></a>\<newline>'', ''## Same title'',
                            ''## Same title''],
             cell_other = []\<rparr>,
            \<lparr>cell_type = ''code'', cell_source = [''# Same title''], cell_other = []\<rparr>,
            \<lparr>cell_type = ''markdown'',
             cell_source = [''<a class="anchor" id="Same_title_2"></a>\<newline>'', ''# Same title''],
             cell_other = []\<rparr>])\<close>
    by code_simp
  have "distinct (map (\<lambda>e. h_anchor (snd e))
           [(0::nat, \<lparr>h_title = ''Same title\<newline>'', h_level = 0, h_anchor = ''Same_title_0''\<rparr>),
            (1, \<lparr>h_title = ''Same title'', h_level = 1, h_anchor = ''Same_title_1''\<rparr>),
            (2, \<lparr>h_title = ''Same title'', h_level = 0, h_anchor = ''Same_title_2''\<rparr>)])"
    by (rule anchors_distinct_and_ordered[OF run, THEN conjunct2, THEN conjunct2, THEN conjunct2])
  then have "distinct [''Same_title_0'', ''Same_title_1'', ''Same_title_2'']"
    by (simp only: list.map snd_conv heading.simps)
  with run show ?thesis by (rule conjI)
qed

section \<open>The fields of a recorded heading\<close>

text \<open>
  C2, as the spec states it, fails. The anchor is not the title with whitespace
  collapsed and trimmed: \<open>rstrip()\<close> removes whitespace at the end only and
  \<open>replace(' ', '_')\<close> turns every single space into an underscore. For the line
  \<open>#  My  Title\<close>, with two spaces after the \<open>#\<close> and two inside the title, the level
  and the title are those of the claim, but the anchor is \<open>_My__Title_0\<close>, not
  \<open>My_Title_0\<close>.
\<close>

theorem anchor_keeps_every_space:
  "extract_info [''#  My  Title''] [] =
     [(0, \<lparr>h_title = '' My  Title'', h_level = 0, h_anchor = ''_My__Title_0''\<rparr>)]
   \<and> spec_level ''#  My  Title'' = 0
   \<and> spec_title ''#  My  Title'' = '' My  Title''
   \<and> spec_anchor ''#  My  Title'' 0 = ''My_Title_0''
   \<and> h_anchor (snd (hd (extract_info [''#  My  Title''] []))) \<noteq> spec_anchor ''#  My  Title'' 0"
  by code_simp

lemma nth_new_entries:
  "k < length ws \<Longrightarrow> new_entries n ws ! k = (n + k, new_entry (ws ! k) (n + k))"
  by (simp add: new_entries_def nth_enumerate_eq)

lemma doc_heading_lines_start: "word \<in> set (doc_heading_lines cells) \<Longrightarrow> startswith word ''#''"
  by (auto simp: doc_heading_lines_def heading_lines_def split: if_splits)

lemma leading_run_title:
  assumes "length (filter (\<lambda>c. c = CHR ''#'') word) = length (takeWhile (\<lambda>c. c = CHR ''#'') word)"
  shows "h_level (new_entry word k) = spec_level word
         \<and> h_title (new_entry word k) = drop 1 (dropWhile (\<lambda>c. c = CHR ''#'') word)"
proof -
  let ?c = "length (takeWhile (\<lambda>c. c = CHR ''#'') word)"
  have "nat (int ?c - 1 + 2) = ?c + 1" by simp
  then have "drop (nat (int ?c - 1 + 2)) word = drop 1 (drop ?c word)" by simp
  also have "\<dots> = drop 1 (dropWhile (\<lambda>c. c = CHR ''#'') word)"
    by (simp only: dropWhile_eq_drop)
  finally show ?thesis using assms by (simp add: new_entry_def spec_level_def)
qed

text \<open>
  C2, amended: the entry with key \<open>k\<close> of the table belongs to the \<open>k\<close>-th recorded
  heading line in encounter order, a line that starts with \<open>#\<close>. Its anchor is its title
  with the whitespace at the end removed and every space replaced by one underscore,
  then an underscore and the decimal numeral of \<open>k\<close>. When every \<open>#\<close> of the line stands
  in its leading run, its level is the length of that run minus one, and its title is
  what follows the run and one more character: the rest of the line, line end included.
\<close>

theorem recorded_heading_fields:
  assumes "generate_new_cells cells colors = Inr (info_to_add, new_cells)"
    and "k < length info_to_add"
  shows "(let word = doc_heading_lines cells ! k; entry = snd (info_to_add ! k)
          in startswith word ''#''
             \<and> fst (info_to_add ! k) = k
             \<and> h_anchor entry = replace_space (rstrip (h_title entry)) @ ''_'' @ str_nat k
             \<and> (length (filter (\<lambda>c. c = CHR ''#'') word)
                   = length (takeWhile (\<lambda>c. c = CHR ''#'') word)
                 \<longrightarrow> h_level entry = spec_level word
                     \<and> h_title entry = drop 1 (dropWhile (\<lambda>c. c = CHR ''#'') word)))"
proof -
  let ?ws = "doc_heading_lines cells"
  from assms(1) have info: "info_to_add = new_entries 0 ?ws"
    by (simp add: generate_new_cells_result)
  with assms(2) have k: "k < length ?ws" by (simp add: length_new_entries)
  have nth: "info_to_add ! k = (k, new_entry (?ws ! k) k)"
    using nth_new_entries[OF k, of 0] by (simp add: info)
  have "?ws ! k \<in> set ?ws" using k by (rule nth_mem)
  then have st: "startswith (?ws ! k) ''#''" by (rule doc_heading_lines_start)
  have an: "h_anchor (new_entry (?ws ! k) k)
      = replace_space (rstrip (h_title (new_entry (?ws ! k) k))) @ ''_'' @ str_nat k"
    by (simp add: new_entry_def)
  show ?thesis
    unfolding Let_def nth fst_conv snd_conv
    using st an leading_run_title[of "?ws ! k" k] by blast
qed

text \<open>The theorem at the line \<open>## Two  words\<close>, which ends with a space and a newline.\<close>

theorem recorded_heading_fields_witness:
  \<open>generate_new_cells
     [\<lparr>cell_type = ''markdown'', cell_source = [''## Two  words \<newline>''], cell_other = []\<rparr>] None
   = Inr ([(0, \<lparr>h_title = ''Two  words \<newline>'', h_level = 1, h_anchor = ''Two__words_0''\<rparr>)],
          [\<lparr>cell_type = ''markdown'',
            cell_source = [''<a class="anchor" id="Two__words_0"></a>\<newline>'', ''## Two  words \<newline>''],
            cell_other = []\<rparr>])
   \<and> spec_level ''## Two  words \<newline>'' = 1
   \<and> drop 1 (dropWhile (\<lambda>c. c = CHR ''#'') ''## Two  words \<newline>'') = ''Two  words \<newline>''
   \<and> replace_space (rstrip ''Two  words \<newline>'') @ ''_'' @ str_nat 0 = ''Two__words_0''\<close>
proof -
  have run: \<open>generate_new_cells
     [\<lparr>cell_type = ''markdown'', cell_source = [''## Two  words \<newline>''], cell_other = []\<rparr>] None
   = Inr ([(0, \<lparr>h_title = ''Two  words \<newline>'', h_level = 1, h_anchor = ''Two__words_0''\<rparr>)],
          [\<lparr>cell_type = ''markdown'',
            cell_source = [''<a class="anchor" id="Two__words_0"></a>\<newline>'', ''## Two  words \<newline>''],
            cell_other = []\<rparr>])\<close>
    by code_simp
  have k: "0 < length [(0::nat, \<lparr>h_title = ''Two  words \<newline>'', h_level = 1,
      h_anchor = ''Two__words_0''\<rparr>)]" by simp
  show ?thesis
    using recorded_heading_fields[OF run k] run
    by code_simp
qed

section \<open>Running the transformation twice\<close>

text \<open>
  C8, as the spec states it, fails in its reason: a second run does not annotate the
  headings again. On the output of the example document it records no heading and
  changes no cell; the Intro and Details cells keep their one anchor tag. The result
  still differs from its input, by a second contents cell that holds the header only.
\<close>

theorem second_run_annotates_nothing:
  \<open>create_new_document ''0a1b2c3d'' \<lparr>doc_cells = example_cells, doc_other = []\<rparr> None
     = Inr example_annotated
   \<and> generate_new_cells (doc_cells example_annotated) None
     = Inr ([], doc_cells example_annotated)
   \<and> create_new_document ''e4f5a6b7'' example_annotated None
     = Inr \<lparr>doc_cells =
         [\<lparr>cell_type = ''markdown'',
           cell_source = ['' # Table of Contents\<newline>''],
           cell_other = [(''id'', JStr ''e4f5a6b7''), (''metadata'', JObj [])]\<rparr>,
          \<lparr>cell_type = ''markdown'',
           cell_source = ['' # Table of Contents\<newline>'',
                          ''+ [Intro\<newline>](#Intro_0)\<newline>'',
                          CHR 0x09 # ''+ [Details\<newline>](#Details_1)\<newline>''],
           cell_other = [(''id'', JStr ''0a1b2c3d''), (''metadata'', JObj [])]\<rparr>,
          \<lparr>cell_type = ''markdown'',
           cell_source = [''<a class="anchor" id="Intro_0"></a>\<newline>'', ''# Intro\<newline>''],
           cell_other = []\<rparr>,
          \<lparr>cell_type = ''code'', cell_source = [''print(1)''], cell_other = []\<rparr>,
          \<lparr>cell_type = ''markdown'',
           cell_source = [''<a class="anchor" id="Details_1"></a>\<newline>'', ''## Details\<newline>''],
           cell_other = []\<rparr>],
        doc_other = []\<rparr>\<close>
  by code_simp

text \<open>
  After the first run no cell is rewritten again: an annotated cell starts with its
  anchor tag and the contents cell starts with a space.
\<close>

lemma annotate_cell_not_qualifies: "\<not> qualifies (annotate_cell colors n cell)"
  by (simp add: annotate_cell_def qualifies_def anchor_tag_def startswith_def Let_def)

lemma annotate_all_not_qualifies:
  "\<forall>cell \<in> set (annotate_all colors n cells). \<not> qualifies cell"
  by (induction cells arbitrary: n) (simp_all add: annotate_cell_not_qualifies)

text \<open>
  C8, amended: the transformation is not idempotent. For every document, with or
  without headings, a second run on the output of the first (with any colours and any
  identifier) records no heading, leaves every cell of that output as it is, and
  returns that output with one more contents cell before its cells, holding the header
  line only; so the result differs from its input. No heading is annotated twice.
\<close>

theorem second_run_adds_only_a_contents_cell:
  assumes "create_new_document cell_id document colors = Inr document'"
  shows "generate_new_cells (doc_cells document') colors' = Inr ([], doc_cells document')
         \<and> create_new_document cell_id' document' colors' =
             Inr (document'\<lparr>doc_cells :=
               \<lparr>cell_type = ''markdown'',
                cell_source = ['' # Table of Contents\<newline>''],
                cell_other = [(''id'', JStr cell_id'), (''metadata'', JObj [])]\<rparr>
               # doc_cells document'\<rparr>)
         \<and> create_new_document cell_id' document' colors' \<noteq> Inr document'"
proof -
  let ?toc = "\<lparr>cell_type = ''markdown'',
        cell_source = '' # Table of Contents\<newline>''
          # map (\<lambda>e. contents_line (snd e)) (new_entries 0 (doc_heading_lines (doc_cells document))),
        cell_other = [(''id'', JStr cell_id), (''metadata'', JObj [])]\<rparr>"
  from assms have d: "doc_cells document' = ?toc # annotate_all colors 0 (doc_cells document)"
    by (auto simp: create_new_document_result)
  have "\<not> qualifies ?toc" by (simp add: qualifies_def startswith_def)
  then have nq: "\<forall>cell \<in> set (doc_cells document'). \<not> qualifies cell"
    unfolding d using annotate_all_not_qualifies[of colors 0 "doc_cells document"] by simp
  have gen: "generate_new_cells (doc_cells document') colors' = Inr ([], doc_cells document')"
    by (simp add: generate_new_cells_result annotate_all_passthrough[OF nq]
        doc_heading_lines_passthrough[OF nq] new_entries_Nil)
  have run: "create_new_document cell_id' document' colors' =
             Inr (document'\<lparr>doc_cells :=
               \<lparr>cell_type = ''markdown'',
                cell_source = ['' # Table of Contents\<newline>''],
                cell_other = [(''id'', JStr cell_id'), (''metadata'', JObj [])]\<rparr>
               # doc_cells document'\<rparr>)"
    by (simp add: create_new_document_result annotate_all_passthrough[OF nq]
        doc_heading_lines_passthrough[OF nq] new_entries_Nil)
  have ne: "create_new_document cell_id' document' colors' \<noteq> Inr document'"
  proof
    assume "create_new_document cell_id' document' colors' = Inr document'"
    with run have "document'\<lparr>doc_cells :=
               \<lparr>cell_type = ''markdown'',
                cell_source = ['' # Table of Contents\<newline>''],
                cell_other = [(''id'', JStr cell_id'), (''metadata'', JObj [])]\<rparr>
               # doc_cells document'\<rparr> = document'" by simp
    then have "doc_cells (document'\<lparr>doc_cells :=
               \<lparr>cell_type = ''markdown'',
                cell_source = ['' # Table of Contents\<newline>''],
                cell_other = [(''id'', JStr cell_id'), (''metadata'', JObj [])]\<rparr>
               # doc_cells document'\<rparr>) = doc_cells document'" by (rule arg_cong)
    then show False by simp
  qed
  from gen run ne show ?thesis by blast
qed

text \<open>The theorem at a document of one heading, both runs with the colour red.\<close>

theorem second_run_adds_only_a_contents_cell_witness:
  \<open>create_new_document ''e4f5a6b7''
     \<lparr>doc_cells =
        [\<lparr>cell_type = ''markdown'',
          cell_source = ['' # Table of Contents\<newline>'', ''+ [T](#T_0)\<newline>''],
          cell_other = [(''id'', JStr ''0a1b2c3d''), (''metadata'', JObj [])]\<rparr>,
         \<lparr>cell_type = ''markdown'',
          cell_source = [''<a class="anchor" id="T_0"></a>\<newline>'',
                         ''# <span style="color: red">T</span>''],
          cell_other = []\<rparr>],
      doc_other = []\<rparr> (Some [''red''])
   = Inr \<lparr>doc_cells =
        [\<lparr>cell_type = ''markdown'',
          cell_source = ['' # Table of Contents\<newline>''],
          cell_other = [(''id'', JStr ''e4f5a6b7''), (''metadata'', JObj [])]\<rparr>,
         \<lparr>cell_type = ''markdown'',
          cell_source = ['' # Table of Contents\<newline>'', ''+ [T](#T_0)\<newline>''],
          cell_other = [(''id'', JStr ''0a1b2c3d''), (''metadata'', JObj [])]\<rparr>,
         \<lparr>cell_type = ''markdown'',
          cell_source = [''<a class="anchor" id="T_0"></a>\<newline>'',
                         ''# <span style="color: red">T</span>''],
          cell_other = []\<rparr>],
      doc_other = []\<rparr>\<close>
proof -
  have first: \<open>create_new_document ''0a1b2c3d''
      \<lparr>doc_cells = [\<lparr>cell_type = ''markdown'', cell_source = [''# T''], cell_other = []\<rparr>],
       doc_other = []\<rparr> (Some [''red''])
    = Inr \<lparr>doc_cells =
        [\<lparr>cell_type = ''markdown'',
          cell_source = ['' # Table of Contents\<newline>'', ''+ [T](#T_0)\<newline>''],
          cell_other = [(''id'', JStr ''0a1b2c3d''), (''metadata'', JObj [])]\<rparr>,
         \<lparr>cell_type = ''markdown'',
          cell_source = [''<a class="anchor" id="T_0"></a>\<newline>'',
                         ''# <span style="color: red">T</span>''],
          cell_other = []\<rparr>],
      doc_other = []\<rparr>\<close>
    by code_simp
  show ?thesis
    using second_run_adds_only_a_contents_cell[OF first, of "Some [''red'']" "''e4f5a6b7''"]
    by simp
qed

section \<open>The saved file name on paths that hold the suffix twice\<close>

text \<open>
  C9 holds when \<open>.ipynb\<close> occurs in the path only as its end, as in \<open>nb.ipynb\<close>. But
  \<open>split('.ipynb')[0]\<close> keeps what stands before the first occurrence: for a notebook in
  a checkpoint directory the saved name loses the directory and the stem, and for
  \<open>a.ipynb.ipynb\<close> it is \<open>a_chulo.ipynb\<close>, not \<open>a.ipynb_chulo.ipynb\<close>.
\<close>

theorem name_chulo_first_occurrence:
  "name_chulo ''project/.ipynb_checkpoints/analysis-checkpoint.ipynb'' = Inr ''project/_chulo.ipynb''
   \<and> name_chulo ''a.ipynb.ipynb'' = Inr ''a_chulo.ipynb''
   \<and> name_chulo ''nb.ipynb'' = Inr ''nb_chulo.ipynb''"
  by code_simp

end
